theory Spec2Isabelle
  imports Main
begin

section \<open>JavaScript values\<close>

text \<open>
  The options of the \<open>Auth\<close> class are plain JavaScript values, tested with \<open>||\<close>, \<open>!\<close>,
  \<open>typeof\<close>, \<open>===\<close> and \<open>Array.isArray\<close>. Numbers are restricted to the integers
  (the class does no arithmetic; only the truthiness of a number is observed).
\<close>

datatype jsval =
    JUndefined
  | JNull
  | JBool bool
  | JNum int
  | JStr string
  | JArr "jsval list"
  | JObj "(string \<times> jsval) list"

text \<open>\<open>!!v\<close>: the falsy values are \<open>undefined\<close>, \<open>null\<close>, \<open>false\<close>, \<open>0\<close> and \<open>''\<close>.\<close>

fun truthy :: "jsval \<Rightarrow> bool" where
  "truthy JUndefined = False"
| "truthy JNull = False"
| "truthy (JBool b) = b"
| "truthy (JNum n) = (n \<noteq> 0)"
| "truthy (JStr s) = (s \<noteq> [])"
| "truthy (JArr xs) = True"
| "truthy (JObj ps) = True"

text \<open>\<open>a || b\<close>.\<close>

definition js_or :: "jsval \<Rightarrow> jsval \<Rightarrow> jsval" where
  "js_or a b = (if truthy a then a else b)"

text \<open>\<open>typeof v === 'string'\<close> and \<open>Array.isArray(v)\<close>.\<close>

fun is_string :: "jsval \<Rightarrow> bool" where
  "is_string (JStr s) = True"
| "is_string v = False"

fun isArray :: "jsval \<Rightarrow> bool" where
  "isArray (JArr xs) = True"
| "isArray v = False"

text \<open>\<open>v.length\<close> of a string or an array (the only values whose length the class reads).\<close>

fun js_length :: "jsval \<Rightarrow> nat" where
  "js_length (JStr s) = length s"
| "js_length (JArr xs) = length xs"
| "js_length v = 0"

text \<open>
  \<open>String(v)\<close>, the conversion that a template literal, a property key and \<open>parseInt\<close> apply:
  the decimal digits of a number, the elements of an array joined by commas (\<open>null\<close> and
  \<open>undefined\<close> as the empty string), \<open>[object Object]\<close> for a plain object.
\<close>

function decimal :: "nat \<Rightarrow> string" where
  "decimal n =
     (if n < 10 then [''0123456789'' ! n] else decimal (n div 10) @ [''0123456789'' ! (n mod 10)])"
  by pat_completeness auto
termination
  by (relation "measure id") auto

declare decimal.simps [simp del]

fun join :: "string list \<Rightarrow> string" where
  "join [] = []"
| "join [s] = s"
| "join (s # t # ts) = s @ '','' @ join (t # ts)"

fun to_string :: "jsval \<Rightarrow> string" where
  "to_string JUndefined = ''undefined''"
| "to_string JNull = ''null''"
| "to_string (JBool b) = (if b then ''true'' else ''false'')"
| "to_string (JNum n) = (if n < 0 then ''-'' @ decimal (nat (- n)) else decimal (nat n))"
| "to_string (JStr s) = s"
| "to_string (JArr xs) =
     join (map (\<lambda>x. if x = JUndefined \<or> x = JNull then [] else to_string x) xs)"
| "to_string (JObj ps) = ''[object Object]''"

text \<open>\<open>o[k]\<close> on the own properties of an object: \<open>undefined\<close> where there is none.\<close>

definition own_property :: "(string \<times> jsval) list \<Rightarrow> string \<Rightarrow> jsval" where
  "own_property ps k = (case map_of ps k of None \<Rightarrow> JUndefined | Some v \<Rightarrow> v)"

text \<open>
  An option that may hold an instance of a class (\<open>opts.tokenStore\<close>, \<open>opts.authenticator\<close>):
  \<open>Instance c\<close> passes the \<open>instanceof\<close> test, \<open>Value v\<close> is any other value.
\<close>

datatype 'c ref = Instance 'c | Value jsval

fun truthy_ref :: "'c ref \<Rightarrow> bool" where
  "truthy_ref (Instance c) = True"
| "truthy_ref (Value v) = truthy v"

text \<open>
  An argument declared \<open>opts = {}\<close>: left out (the default \<open>{}\<close> applies), an object, or a
  value that fails the guard \<open>!opts || typeof opts !== 'object'\<close> (\<open>null\<close>, a primitive, a
  function).
\<close>

datatype 'o arg = Omitted | NonObject | Object 'o

section \<open>Messages, errors and events\<close>

text \<open>
  A template literal is kept as its parts: the literal text, the interpolated values and the
  snooplogg styles applied to them.
\<close>

datatype style = Alert | Highlight | Magenta | Note

datatype part = Lit string | Interp jsval | Styled style "part list"

type_synonym template = "part list"

text \<open>
  The errors of \<open>./errors\<close> that the class raises, by kind (an error of kind \<open>K\<close> carries the
  code \<open>ERR_K\<close>), the \<open>TypeError\<close> of the runtime, and \<open>Failure\<close> for any other error thrown
  by a collaborator (a store, an authenticator, the network).
\<close>

datatype error =
    INVALID_ARGUMENT template
  | INVALID_PARAMETER template
  | INVALID_VALUE template
  | MISSING_REQUIRED_PARAMETER template
  | TypeError template
  | Failure string

text \<open>\<open>e.code === 'ERR_MISSING_REQUIRED_PARAMETER'\<close>.\<close>

fun is_missing_required_parameter :: "error \<Rightarrow> bool" where
  "is_missing_required_parameter (MISSING_REQUIRED_PARAMETER m) = True"
| "is_missing_required_parameter e = False"

text \<open>
  What a call does besides returning: the lines it logs and the calls it makes to the token
  store, to the network (\<open>fetch\<close>, \<open>getServerInfo\<close>) and to an authenticator's \<open>login\<close>.
\<close>

datatype event =
    Log template
  | StoreGet jsval
  | StoreList
  | StoreClear jsval
  | StoreDelete jsval jsval
  | Fetch string
  | GetServerInfo jsval
  | AuthenticatorLogin

fun is_log :: "event \<Rightarrow> bool" where
  "is_log (Log m) = True"
| "is_log ev = False"

text \<open>
  The state a call runs in: the world of the collaborators (the contents of the stores, the
  network) and the trace of events so far.
\<close>

record 'w run =
  world :: 'w
  trace :: "event list"

definition log :: "template \<Rightarrow> 'w run \<Rightarrow> 'w run" where
  "log m st = st\<lparr>trace := trace st @ [Log m]\<rparr>"

text \<open>An awaited call of a collaborator: the event is recorded, the world is threaded.\<close>

definition perform :: "event \<Rightarrow> ('w \<Rightarrow> (error + 'r) \<times> 'w) \<Rightarrow> 'w run \<Rightarrow> (error + 'r) \<times> 'w run" where
  "perform ev f st =
     (case f (world st) of (r, w) \<Rightarrow> (r, \<lparr>world = w, trace = trace st @ [ev]\<rparr>))"

section \<open>Data of the class and of its collaborators\<close>

text \<open>
  A credential entry, as the token stores hand it out (the stores themselves are not among the
  sources): \<open>revoke\<close> reads \<open>name\<close>, \<open>baseUrl\<close>, \<open>realm\<close> and \<open>tokens.id_token\<close>, and
  \<open>id_token\<close> is optional.
\<close>

record token_set =
  access_token :: string
  refresh_token :: "string option"
  id_token :: "string option"

record entry =
  hash :: string
  name :: string
  baseUrl :: string
  realm :: string
  tokens :: token_set

text \<open>What \<open>tokenStore.clear\<close> and \<open>tokenStore.delete\<close> resolve to: an array of entries, or not an array.\<close>

datatype removed = Entries "entry list" | NotArray jsval

text \<open>The parts of an endpoint set, of an environment and of a \<open>fetch\<close> response that are read.\<close>

record endpoints =
  logout :: string
  wellKnown :: string

record environment =
  baseUrl :: jsval

text \<open>
  \<open>environments\<close> is an object: besides its own properties, the environments by name, a
  lookup finds the properties every object inherits from \<open>Object.prototype\<close>. An inherited
  member (a method, or the prototype itself) is truthy and has no \<open>baseUrl\<close>.
  \<open>environments_at table v\<close> is \<open>environments[v]\<close>, \<open>None\<close> where that is \<open>undefined\<close>.
\<close>

definition inherited_keys :: "string list" where
  "inherited_keys =
     [''constructor'', ''__defineGetter__'', ''__defineSetter__'', ''hasOwnProperty'',
      ''__lookupGetter__'', ''__lookupSetter__'', ''isPrototypeOf'', ''propertyIsEnumerable'',
      ''toString'', ''valueOf'', ''__proto__'', ''toLocaleString'']"

definition environments_at :: "(string \<times> environment) list \<Rightarrow> jsval \<Rightarrow> environment option" where
  "environments_at table v =
     (case map_of table (to_string v) of
        Some found \<Rightarrow> Some found
      | None \<Rightarrow>
          if to_string v \<in> set inherited_keys then Some \<lparr>environment.baseUrl = JUndefined\<rparr>
          else None)"

record response =
  ok :: bool
  status :: int

text \<open>
  An options object, through the properties the class reads or writes; \<open>others\<close> holds the
  remaining properties, which are only handed on (\<open>tokenStoreDir\<close>, \<open>accountName\<close>, ...). A
  property that is absent is \<open>undefined\<close>.
\<close>

record ('s, 'a) opts =
  authenticator :: "'a ref"
  baseUrl :: jsval
  clientId :: jsval
  clientSecret :: jsval
  env :: jsval
  hash :: jsval
  messages :: jsval
  password :: jsval
  realm :: jsval
  secretFile :: jsval
  serviceAccount :: jsval
  tokenStore :: "'s ref"
  tokenStoreType :: jsval
  url :: jsval
  username :: jsval
  others :: "(string \<times> jsval) list"

text \<open>The object \<open>{}\<close>.\<close>

definition no_opts :: "('s, 'a) opts" where
  "no_opts =
     \<lparr>opts.authenticator = Value JUndefined, opts.baseUrl = JUndefined, opts.clientId = JUndefined,
      opts.clientSecret = JUndefined, opts.env = JUndefined, opts.hash = JUndefined,
      opts.messages = JUndefined, opts.password = JUndefined, opts.realm = JUndefined,
      opts.secretFile = JUndefined, opts.serviceAccount = JUndefined,
      opts.tokenStore = Value JUndefined, opts.tokenStoreType = JUndefined, opts.url = JUndefined,
      opts.username = JUndefined, opts.others = []\<rparr>"

text \<open>
  An \<open>Auth\<close> instance: the ten properties the constructor defines and the private field
  \<open>tokenStore\<close>, which is \<open>null\<close> (\<open>None\<close>) or a store.
\<close>

record 's auth =
  baseUrl :: jsval
  clientId :: jsval
  clientSecret :: jsval
  env :: jsval
  messages :: jsval
  password :: jsval
  realm :: jsval
  secretFile :: jsval
  serviceAccount :: jsval
  username :: jsval
  tokenStore :: "'s option"

text \<open>
  The modules the class imports, none of which is among the sources; they are parameters of
  the model. \<open>'s\<close> is the type of token stores, \<open>'a\<close> of authenticators and \<open>'w\<close> of the world
  they act on. A constructor returns the instance or the error it throws; an asynchronous method
  takes the world and returns the value it resolves to, or the error it rejects with, and the
  new world. \<open>environments\<close> is the table of the environments by name, the own properties
  of the imported object; \<open>getEndpoints\<close> is given the \<open>baseUrl\<close> and the \<open>realm\<close> of its argument.
\<close>

record ('w, 's, 'a) modules =
  SecureStore :: "('s, 'a) opts \<Rightarrow> error + 's"
  FileStore :: "('s, 'a) opts \<Rightarrow> error + 's"
  MemoryStore :: "('s, 'a) opts \<Rightarrow> error + 's"
  store_get :: "'s \<Rightarrow> ('s, 'a) opts \<Rightarrow> 'w \<Rightarrow> (error + entry option) \<times> 'w"
  store_list :: "'s \<Rightarrow> 'w \<Rightarrow> (error + entry list) \<times> 'w"
  store_clear :: "'s \<Rightarrow> jsval \<Rightarrow> 'w \<Rightarrow> (error + removed) \<times> 'w"
  store_delete :: "'s \<Rightarrow> jsval \<Rightarrow> jsval \<Rightarrow> 'w \<Rightarrow> (error + removed) \<times> 'w"
  OwnerPassword :: "('s, 'a) opts \<Rightarrow> error + 'a"
  ClientSecret :: "('s, 'a) opts \<Rightarrow> error + 'a"
  SignedJWT :: "('s, 'a) opts \<Rightarrow> error + 'a"
  PKCE :: "('s, 'a) opts \<Rightarrow> error + 'a"
  authenticator_hash :: "'a \<Rightarrow> string"
  authenticator_login :: "'a \<Rightarrow> ('s, 'a) opts \<Rightarrow> 'w \<Rightarrow> (error + jsval) \<times> 'w"
  environments :: "(string \<times> environment) list"
  getEndpoints :: "jsval \<Rightarrow> jsval \<Rightarrow> error + endpoints"
  fetch :: "string \<Rightarrow> 'w \<Rightarrow> (error + response) \<times> 'w"
  getServerInfo :: "jsval \<Rightarrow> 'w \<Rightarrow> (error + jsval) \<times> 'w"

section \<open>The constructor\<close>

text \<open>The guard \<open>if (!opts || typeof opts !== 'object') throw E.INVALID_ARGUMENT(...)\<close> under the default \<open>opts = {}\<close>.\<close>

definition expect_object :: "('s, 'a) opts arg \<Rightarrow> error + ('s, 'a) opts" where
  "expect_object a =
     (case a of
        Omitted \<Rightarrow> Inr no_opts
      | NonObject \<Rightarrow> Inl (INVALID_ARGUMENT [Lit ''Expected options to be an object''])
      | Object opts \<Rightarrow> Inr opts)"

text \<open>
  The \<open>switch (tokenStoreType)\<close> of the constructor. The cases fall through: a \<open>break\<close> leaves
  with the store, a caught error either falls into the next case or is thrown again, and a
  type that matches no case leaves \<open>this.tokenStore\<close> at \<open>null\<close>.
\<close>

definition createTokenStore :: "('w, 's, 'a) modules \<Rightarrow> ('s, 'a) opts \<Rightarrow> error + 's option" where
  "createTokenStore M opts =
     (let tokenStoreType =
            (if opts.tokenStoreType opts = JUndefined then JStr ''auto'' else opts.tokenStoreType opts);
          case_memory =
            (case MemoryStore M opts of Inl e \<Rightarrow> Inl e | Inr s \<Rightarrow> Inr (Some s));
          case_file =
            (case FileStore M opts of
               Inr s \<Rightarrow> Inr (Some s)
             | Inl e \<Rightarrow>
                 if tokenStoreType = JStr ''auto'' \<and> is_missing_required_parameter e
                 then case_memory else Inl e);
          case_secure =
            (case SecureStore M opts of
               Inr s \<Rightarrow> Inr (Some s)
             | Inl e \<Rightarrow> if tokenStoreType = JStr ''auto'' then case_file else Inl e)
      in if tokenStoreType = JStr ''auto'' \<or> tokenStoreType = JStr ''secure'' then case_secure
         else if tokenStoreType = JStr ''file'' then case_file
         else if tokenStoreType = JStr ''memory'' then case_memory
         else Inr None)"

definition constructor :: "('w, 's, 'a) modules \<Rightarrow> ('s, 'a) opts arg \<Rightarrow> error + 's auth" where
  \<open>constructor M a =
     (case expect_object a of
        Inl e \<Rightarrow> Inl e
      | Inr opts \<Rightarrow>
          (let this =
                 \<lparr>auth.baseUrl = opts.baseUrl opts, auth.clientId = opts.clientId opts,
                  auth.clientSecret = opts.clientSecret opts, auth.env = opts.env opts,
                  auth.messages = opts.messages opts, auth.password = opts.password opts,
                  auth.realm = opts.realm opts, auth.secretFile = opts.secretFile opts,
                  auth.serviceAccount = opts.serviceAccount opts,
                  auth.username = opts.username opts, auth.tokenStore = None\<rparr>
           in if truthy_ref (opts.tokenStore opts) then
                (case opts.tokenStore opts of
                   Instance s \<Rightarrow> Inr (this\<lparr>auth.tokenStore := Some s\<rparr>)
                 | Value v \<Rightarrow>
                     Inl (INVALID_PARAMETER
                            [Lit ''Expected the token store to be a "TokenStore" instance'']))
              else
                (case createTokenStore M opts of
                   Inl e \<Rightarrow> Inl e
                 | Inr store \<Rightarrow> Inr (this\<lparr>auth.tokenStore := store\<rparr>))))\<close>

section \<open>Defaults and the choice of the authenticator\<close>

text \<open>
  \<open>applyDefaults\<close> assigns to the properties of the caller's object; the model returns the
  object after the assignments. Both errors are thrown before the first assignment.
\<close>

definition applyDefaults ::
  "('w, 's, 'a) modules \<Rightarrow> 's auth \<Rightarrow> ('s, 'a) opts arg \<Rightarrow> error + ('s, 'a) opts" where
  "applyDefaults M this a =
     (case expect_object a of
        Inl e \<Rightarrow> Inl e
      | Inr opts \<Rightarrow>
          (let env_name = js_or (js_or (opts.env opts) (auth.env this)) (JStr ''prod'')
           in case environments_at (environments M) env_name of
                None \<Rightarrow>
                  Inl (INVALID_VALUE
                         [Lit ''Invalid environment: '',
                          Interp (js_or (opts.env opts) (auth.env this))])
              | Some found \<Rightarrow>
                  Inr (opts
                    \<lparr>opts.baseUrl :=
                       js_or (js_or (opts.baseUrl opts) (auth.baseUrl this))
                         (environment.baseUrl found),
                     opts.clientId := js_or (opts.clientId opts) (auth.clientId this),
                     opts.clientSecret := js_or (opts.clientSecret opts) (auth.clientSecret this),
                     opts.env := env_name,
                     opts.messages := js_or (opts.messages opts) (auth.messages this),
                     opts.password := js_or (opts.password opts) (auth.password this),
                     opts.realm := js_or (opts.realm opts) (auth.realm this),
                     opts.secretFile := js_or (opts.secretFile opts) (auth.secretFile this),
                     opts.serviceAccount :=
                       js_or (opts.serviceAccount opts) (auth.serviceAccount this),
                     opts.tokenStore :=
                       (case auth.tokenStore this of None \<Rightarrow> Value JNull | Some s \<Rightarrow> Instance s),
                     opts.username := js_or (opts.username opts) (auth.username this)\<rparr>)))"

text \<open>
  \<open>createAuthenticator\<close>, on an options object. Where \<open>opts.authenticator\<close> is truthy and
  not an \<open>Authenticator\<close>, the source calls \<open>E.INVALID_ARUGMENT\<close>, a name that \<open>./errors\<close>
  does not define (the kind is spelled \<open>INVALID_ARGUMENT\<close> everywhere else): the call of
  \<open>undefined\<close> is a \<open>TypeError\<close>.
\<close>

definition createAuthenticator :: "('w, 's, 'a) modules \<Rightarrow> ('s, 'a) opts \<Rightarrow> error + 'a" where
  "createAuthenticator M opts =
     (if truthy_ref (opts.authenticator opts) then
        (case opts.authenticator opts of
           Instance given \<Rightarrow> Inr given
         | Value v \<Rightarrow> Inl (TypeError [Lit ''E.INVALID_ARUGMENT is not a function'']))
      else if is_string (opts.username opts) \<and> truthy (opts.username opts)
              \<and> is_string (opts.password opts) then
        OwnerPassword M opts
      else if is_string (opts.clientSecret opts) \<and> truthy (opts.clientSecret opts) then
        ClientSecret M opts
      else if is_string (opts.secretFile opts) \<and> truthy (opts.secretFile opts) then
        SignedJWT M opts
      else PKCE M opts)"

section \<open>The public operations\<close>

definition getAccount ::
  "('w, 's, 'a) modules \<Rightarrow> 's auth \<Rightarrow> ('s, 'a) opts arg \<Rightarrow> 'w run \<Rightarrow> (error + entry option) \<times> 'w run" where
  "getAccount M this a st =
     (case auth.tokenStore this of
        None \<Rightarrow> (Inr None, log [Lit ''Cannot get account, no token store''] st)
      | Some store \<Rightarrow>
          (case applyDefaults M this a of
             Inl e \<Rightarrow> (Inl e, st)
           | Inr opts \<Rightarrow>
               (case createAuthenticator M opts of
                  Inl e \<Rightarrow> (Inl e, st)
                | Inr chosen \<Rightarrow>
                    (let opts = opts\<lparr>opts.hash := JStr (authenticator_hash M chosen)\<rparr>
                     in perform (StoreGet (opts.hash opts)) (store_get M store opts) st))))"

definition list ::
  "('w, 's, 'a) modules \<Rightarrow> 's auth \<Rightarrow> 'w run \<Rightarrow> (error + entry list) \<times> 'w run" where
  "list M this st =
     (case auth.tokenStore this of
        Some store \<Rightarrow> perform StoreList (store_list M store) st
      | None \<Rightarrow> (Inr [], st))"

definition login ::
  "('w, 's, 'a) modules \<Rightarrow> 's auth \<Rightarrow> ('s, 'a) opts arg \<Rightarrow> 'w run \<Rightarrow> (error + jsval) \<times> 'w run" where
  "login M this a st =
     (case applyDefaults M this a of
        Inl e \<Rightarrow> (Inl e, st)
      | Inr opts \<Rightarrow>
          (case createAuthenticator M opts of
             Inl e \<Rightarrow> (Inl e, st)
           | Inr chosen \<Rightarrow>
               perform AuthenticatorLogin (authenticator_login M chosen opts) st))"

text \<open>
  The loop of \<open>revoke\<close> over the removed entries: the URL requested for an entry, the line
  logged for its response, and the loop. Neither \<open>getEndpoints(entry)\<close> nor
  \<open>await fetch(url)\<close> stands in a \<open>try\<close>: an error of either leaves the loop and the call.
\<close>

definition logout_url :: "endpoints \<Rightarrow> entry \<Rightarrow> string" where
  "logout_url eps entry =
     logout eps @ ''?id_token_hint=''
       @ (case id_token (entry.tokens entry) of None \<Rightarrow> ''undefined'' | Some t \<Rightarrow> t)"

definition logout_line :: "entry \<Rightarrow> response \<Rightarrow> template" where
  "logout_line entry res =
     [Lit (if ok res then ''Successfully logged out '' else ''Failed to log out ''),
      Styled Highlight [Interp (JStr (entry.name entry))], Lit '' '',
      Styled (if ok res then Magenta else Alert) [Interp (JNum (status res))], Lit '' '',
      Styled Note [Lit ''('', Interp (JStr (entry.baseUrl entry)), Lit '', '',
                   Interp (JStr (entry.realm entry)), Lit '')'']]"

fun logout_each ::
  "('w, 's, 'a) modules \<Rightarrow> entry list \<Rightarrow> 'w run \<Rightarrow> (error + unit) \<times> 'w run" where
  "logout_each M [] st = (Inr (), st)"
| "logout_each M (entry # rest) st =
     (case getEndpoints M (JStr (entry.baseUrl entry)) (JStr (entry.realm entry)) of
        Inl e \<Rightarrow> (Inl e, st)
      | Inr eps \<Rightarrow>
          (case perform (Fetch (logout_url eps entry)) (fetch M (logout_url eps entry)) st of
             (Inl e, st1) \<Rightarrow> (Inl e, st1)
           | (Inr res, st1) \<Rightarrow> logout_each M rest (log (logout_line entry res) st1)))"

text \<open>
  The parameter \<open>{ accounts, all, baseUrl } = {}\<close> of \<open>revoke\<close>: the default \<open>{}\<close> stands
  in for \<open>undefined\<close> only, destructuring \<open>null\<close> is a \<open>TypeError\<close>, an object gives
  its three properties, and any other value has none of them.
\<close>

fun destructure :: "jsval \<Rightarrow> error + jsval \<times> jsval \<times> jsval" where
  "destructure JNull = Inl (TypeError [Lit ''Cannot destructure property accounts of null''])"
| "destructure (JObj ps) =
     Inr (own_property ps ''accounts'', own_property ps ''all'', own_property ps ''baseUrl'')"
| "destructure v = Inr (JUndefined, JUndefined, JUndefined)"

text \<open>\<open>revoke\<close>; \<open>base_url\<close> is the destructured \<open>baseUrl\<close>.\<close>

definition revoke ::
  "('w, 's, 'a) modules \<Rightarrow> 's auth \<Rightarrow> jsval \<Rightarrow> 'w run \<Rightarrow> (error + removed) \<times> 'w run" where
  \<open>revoke M this a st =
     (case destructure a of
        Inl e \<Rightarrow> (Inl e, st)
      | Inr (accounts, all, base_url) \<Rightarrow>
          (case auth.tokenStore this of
             None \<Rightarrow> (Inr (Entries []), log [Lit ''No token store, returning empty array''] st)
           | Some store \<Rightarrow>
               if \<not> truthy all \<and> \<not> is_string accounts \<and> \<not> isArray accounts then
                 (Inl (INVALID_ARGUMENT
                         [Lit ''Expected accounts to be "all" or a list of accounts'']), st)
               else if \<not> truthy all \<and> js_length accounts = 0 then (Inr (Entries []), st)
               else
                 (case (if truthy all
                        then perform (StoreClear base_url) (store_clear M store base_url) st
                        else perform (StoreDelete accounts base_url)
                               (store_delete M store accounts base_url) st) of
                    (Inl e, st1) \<Rightarrow> (Inl e, st1)
                  | (Inr revoked, st1) \<Rightarrow>
                      (case revoked of
                         Entries es \<Rightarrow>
                           (case logout_each M es st1 of
                              (Inl e, st2) \<Rightarrow> (Inl e, st2)
                            | (Inr u, st2) \<Rightarrow> (Inr revoked, st2))
                       | NotArray v \<Rightarrow> (Inr revoked, st1)))))\<close>


section \<open>Notions of the specification\<close>

text \<open>The token store of the instance a construction yields, or the error it throws.\<close>

definition constructed_store :: "error + 's auth \<Rightarrow> error + 's option" where
  "constructed_store r = (case r of Inl e \<Rightarrow> Inl e | Inr this \<Rightarrow> Inr (auth.tokenStore this))"

text \<open>
  A selection policy is an ordered list of rules, each of which selects an authenticator or
  does not apply; the first rule that applies wins, and the interactive PKCE authenticator is
  selected when none applies.
\<close>

datatype 'a selection = Supplied 'a | ByOwnerPassword | ByClientSecret | BySignedJWT | ByPKCE

fun first_match :: "('o \<Rightarrow> 'k option) list \<Rightarrow> 'k \<Rightarrow> 'o \<Rightarrow> 'k" where
  "first_match [] otherwise x = otherwise"
| "first_match (rule # rest) otherwise x =
     (case rule x of Some k \<Rightarrow> k | None \<Rightarrow> first_match rest otherwise x)"

definition provided :: "bool \<Rightarrow> 'k \<Rightarrow> 'k option" where
  "provided condition k = (if condition then Some k else None)"

fun non_empty_string :: "jsval \<Rightarrow> bool" where
  "non_empty_string (JStr s) = (s \<noteq> [])"
| "non_empty_string v = False"

text \<open>
  The policy in the words of the specification: an authenticator instance that is supplied,
  username and password present, client secret present, secret-file path present; a credential
  is present when it is a non-empty string.
\<close>

definition stated_policy :: "(('s, 'a) opts \<Rightarrow> 'a selection option) list" where
  "stated_policy =
     [\<lambda>opts. (case opts.authenticator opts of Instance given \<Rightarrow> Some (Supplied given) | Value v \<Rightarrow> None),
      \<lambda>opts. provided (non_empty_string (opts.username opts) \<and> non_empty_string (opts.password opts))
                ByOwnerPassword,
      \<lambda>opts. provided (non_empty_string (opts.clientSecret opts)) ByClientSecret,
      \<lambda>opts. provided (non_empty_string (opts.secretFile opts)) BySignedJWT]"

text \<open>The same policy with the second rule as amended: the password is a string, empty or not.\<close>

definition selection_policy :: "(('s, 'a) opts \<Rightarrow> 'a selection option) list" where
  "selection_policy =
     [\<lambda>opts. (case opts.authenticator opts of Instance given \<Rightarrow> Some (Supplied given) | Value v \<Rightarrow> None),
      \<lambda>opts. provided (non_empty_string (opts.username opts) \<and> is_string (opts.password opts))
                ByOwnerPassword,
      \<lambda>opts. provided (non_empty_string (opts.clientSecret opts)) ByClientSecret,
      \<lambda>opts. provided (non_empty_string (opts.secretFile opts)) BySignedJWT]"

text \<open>What a selection gives: the supplied instance as it is, or a new authenticator of the selected class.\<close>

fun selected :: "('w, 's, 'a) modules \<Rightarrow> 'a selection \<Rightarrow> ('s, 'a) opts \<Rightarrow> error + 'a" where
  "selected M (Supplied given) opts = Inr given"
| "selected M ByOwnerPassword opts = OwnerPassword M opts"
| "selected M ByClientSecret opts = ClientSecret M opts"
| "selected M BySignedJWT opts = SignedJWT M opts"
| "selected M ByPKCE opts = PKCE M opts"


section \<open>A concrete set of collaborators\<close>

text \<open>
  One instance of the imported modules, on which the theorems below are run: a platform
  without a credential vault, a file store that needs a directory, the three environments, a
  network that is reachable or not, and an identity provider that answers a logout request
  with a status.
\<close>

datatype sample_store = Secure | File string | Memory

datatype sample_authenticator = Authenticator string jsval

record sample_world =
  contents :: "entry list"
  online :: bool
  answers :: "(string \<times> int) list"

definition property :: "('s, 'a) opts \<Rightarrow> string \<Rightarrow> jsval" where
  "property opts k = own_property (opts.others opts) k"

text \<open>
  \<open>parseInt(v, 10)\<close>: the integer that the string of \<open>v\<close> begins with, after blanks and a
  sign; \<open>None\<close> is \<open>NaN\<close>.
\<close>

definition parseInt :: "jsval \<Rightarrow> int option" where
  "parseInt v =
     (let s = dropWhile (\<lambda>c. c = CHR '' '') (to_string v);
          negative = (take 1 s = ''-'');
          unsigned = (if take 1 s = ''-'' \<or> take 1 s = ''+'' then drop 1 s else s);
          digits = takeWhile (\<lambda>c. c \<in> set ''0123456789'') unsigned;
          magnitude =
            foldl (\<lambda>n c. 10 * n + int (length (takeWhile (\<lambda>d. d \<noteq> c) ''0123456789''))) 0 digits
      in if digits = [] then None else Some (if negative then - magnitude else magnitude))"

text \<open>
  The constructor of the base class of the stores, which each store calls first: it rejects a
  \<open>tokenRefreshThreshold\<close> that is not a number of seconds. The file store then requires a
  directory, the secure store requires what the file store requires and a vault, which this
  platform does not have.
\<close>

definition sample_TokenStore :: "(sample_store, sample_authenticator) opts \<Rightarrow> error option" where
  "sample_TokenStore opts =
     (if property opts ''tokenRefreshThreshold'' = JUndefined then None
      else (case parseInt (property opts ''tokenRefreshThreshold'') of
              None \<Rightarrow>
                Some (INVALID_PARAMETER [Lit ''Expected token refresh threshold to be a number of seconds''])
            | Some seconds \<Rightarrow>
                if seconds < 0
                then Some (Failure ''Token refresh threshold must be greater than or equal to zero'')
                else None))"

definition sample_FileStore :: "(sample_store, sample_authenticator) opts \<Rightarrow> error + sample_store" where
  "sample_FileStore opts =
     (case sample_TokenStore opts of
        Some e \<Rightarrow> Inl e
      | None \<Rightarrow>
          (case property opts ''tokenStoreDir'' of
             JStr dir \<Rightarrow>
               if dir = [] then Inl (MISSING_REQUIRED_PARAMETER [Lit ''Token store requires a token store path''])
               else Inr (File dir)
           | v \<Rightarrow> Inl (MISSING_REQUIRED_PARAMETER [Lit ''Token store requires a token store path''])))"

definition sample_SecureStore :: "(sample_store, sample_authenticator) opts \<Rightarrow> error + sample_store" where
  "sample_SecureStore opts =
     (case sample_FileStore opts of
        Inl e \<Rightarrow> Inl e
      | Inr s \<Rightarrow> Inl (Failure ''Secure token store requires the keytar module''))"

definition sample_MemoryStore :: "(sample_store, sample_authenticator) opts \<Rightarrow> error + sample_store" where
  "sample_MemoryStore opts =
     (case sample_TokenStore opts of Some e \<Rightarrow> Inl e | None \<Rightarrow> Inr Memory)"

definition matches_baseUrl :: "jsval \<Rightarrow> entry \<Rightarrow> bool" where
  "matches_baseUrl base_url entry = (\<not> truthy base_url \<or> base_url = JStr (entry.baseUrl entry))"

definition sample_get ::
  "sample_store \<Rightarrow> (sample_store, sample_authenticator) opts \<Rightarrow> sample_world \<Rightarrow> (error + entry option) \<times> sample_world" where
  "sample_get store opts w = (Inr (find (\<lambda>entry. JStr (entry.hash entry) = opts.hash opts) (contents w)), w)"

definition sample_list :: "sample_store \<Rightarrow> sample_world \<Rightarrow> (error + entry list) \<times> sample_world" where
  "sample_list store w = (Inr (contents w), w)"

definition sample_clear :: "sample_store \<Rightarrow> jsval \<Rightarrow> sample_world \<Rightarrow> (error + removed) \<times> sample_world" where
  "sample_clear store base_url w =
     (Inr (Entries (filter (matches_baseUrl base_url) (contents w))),
      w\<lparr>contents := filter (\<lambda>entry. \<not> matches_baseUrl base_url entry) (contents w)\<rparr>)"

definition named :: "jsval \<Rightarrow> entry \<Rightarrow> bool" where
  "named accounts entry =
     (case accounts of
        JStr account \<Rightarrow> account = entry.name entry
      | JArr names \<Rightarrow> JStr (entry.name entry) \<in> set names
      | v \<Rightarrow> False)"

definition sample_delete ::
  "sample_store \<Rightarrow> jsval \<Rightarrow> jsval \<Rightarrow> sample_world \<Rightarrow> (error + removed) \<times> sample_world" where
  "sample_delete store accounts base_url w =
     (Inr (Entries (filter (\<lambda>entry. named accounts entry \<and> matches_baseUrl base_url entry) (contents w))),
      w\<lparr>contents :=
          filter (\<lambda>entry. \<not> (named accounts entry \<and> matches_baseUrl base_url entry)) (contents w)\<rparr>)"

definition sample_OwnerPassword ::
  "(sample_store, sample_authenticator) opts \<Rightarrow> error + sample_authenticator" where
  "sample_OwnerPassword opts =
     (if opts.password opts = JStr []
      then Inl (INVALID_ARGUMENT [Lit ''Expected password to be a non-empty string''])
      else Inr (Authenticator ''OwnerPassword'' (opts.clientId opts)))"

definition sample_hash :: "sample_authenticator \<Rightarrow> string" where
  "sample_hash chosen =
     (case chosen of
        Authenticator kind (JStr client) \<Rightarrow> kind @ '':'' @ client
      | Authenticator kind v \<Rightarrow> kind)"

definition sample_login ::
  "sample_authenticator \<Rightarrow> (sample_store, sample_authenticator) opts \<Rightarrow> sample_world \<Rightarrow> (error + jsval) \<times> sample_world" where
  "sample_login chosen opts w =
     (if online w then (Inr (JObj [(''hash'', JStr (sample_hash chosen))]), w)
      else (Inl (Failure ''ECONNREFUSED''), w))"

definition sample_environments :: "(string \<times> environment) list" where
  "sample_environments =
     [(''dev'', \<lparr>environment.baseUrl = JStr ''https://login-dev.axway.com''\<rparr>),
      (''preprod'', \<lparr>environment.baseUrl = JStr ''https://login-preprod.axway.com''\<rparr>),
      (''prod'', \<lparr>environment.baseUrl = JStr ''https://login.axway.com''\<rparr>)]"

definition sample_getEndpoints :: "jsval \<Rightarrow> jsval \<Rightarrow> error + endpoints" where
  "sample_getEndpoints base realm_name =
     (case (base, realm_name) of
        (JStr b, JStr r) \<Rightarrow>
          if b = [] \<or> r = [] then Inl (TypeError [Lit ''Expected a base URL and a realm''])
          else Inr \<lparr>logout = b @ ''/auth/realms/'' @ r @ ''/protocol/openid-connect/logout'',
                    wellKnown = b @ ''/auth/realms/'' @ r @ ''/.well-known/openid-configuration''\<rparr>
      | other \<Rightarrow> Inl (TypeError [Lit ''Expected a base URL and a realm'']))"

definition sample_fetch :: "string \<Rightarrow> sample_world \<Rightarrow> (error + response) \<times> sample_world" where
  "sample_fetch target w =
     (if online w then
        (let code = (case map_of (answers w) target of None \<Rightarrow> 200 | Some c \<Rightarrow> c)
         in (Inr \<lparr>ok = (200 \<le> code \<and> code < 300), status = code\<rparr>, w))
      else (Inl (Failure ''ECONNREFUSED''), w))"

definition sample_getServerInfo :: "jsval \<Rightarrow> sample_world \<Rightarrow> (error + jsval) \<times> sample_world" where
  "sample_getServerInfo target w =
     (if online w then
        (Inr (JObj [(''issuer'', JStr ''https://example.com/auth/realms/test''),
                    (''end_session_endpoint'',
                     JStr ''https://example.com/auth/realms/test/protocol/openid-connect/logout''),
                    (''claims_parameter_supported'', JBool False)]), w)
      else (Inl (Failure ''ECONNREFUSED''), w))"

definition sample :: "(sample_world, sample_store, sample_authenticator) modules" where
  "sample =
     \<lparr>SecureStore = sample_SecureStore, FileStore = sample_FileStore,
      MemoryStore = sample_MemoryStore, store_get = sample_get, store_list = sample_list,
      store_clear = sample_clear, store_delete = sample_delete,
      OwnerPassword = sample_OwnerPassword,
      ClientSecret = (\<lambda>opts. Inr (Authenticator ''ClientSecret'' (opts.clientId opts))),
      SignedJWT = (\<lambda>opts. Inr (Authenticator ''SignedJWT'' (opts.clientId opts))),
      PKCE = (\<lambda>opts. Inr (Authenticator ''PKCE'' (opts.clientId opts))),
      authenticator_hash = sample_hash, authenticator_login = sample_login,
      environments = sample_environments, getEndpoints = sample_getEndpoints,
      fetch = sample_fetch, getServerInfo = sample_getServerInfo\<rparr>"

text \<open>Two stored entries of one provider (the second without an \<open>id_token\<close>), and three worlds.\<close>

definition alice :: entry where
  "alice =
     \<lparr>entry.hash = ''PKCE:cli'', entry.name = ''alice'', entry.baseUrl = ''https://example.com'',
      entry.realm = ''test'',
      entry.tokens = \<lparr>access_token = ''a1'', refresh_token = Some ''r1'', id_token = Some ''i1''\<rparr>\<rparr>"

definition service :: entry where
  "service =
     \<lparr>entry.hash = ''ClientSecret:svc'', entry.name = ''svc'', entry.baseUrl = ''https://example.com'',
      entry.realm = ''test'',
      entry.tokens = \<lparr>access_token = ''a2'', refresh_token = None, id_token = None\<rparr>\<rparr>"

definition start :: "sample_world \<Rightarrow> sample_world run" where
  "start w = \<lparr>world = w, trace = []\<rparr>"

definition reachable :: sample_world where
  "reachable =
     \<lparr>contents = [alice, service], online = True,
      answers =
        [(''https://example.com/auth/realms/test/protocol/openid-connect/logout?id_token_hint=undefined'',
          400)]\<rparr>"

definition unreachable :: sample_world where
  "unreachable = reachable\<lparr>online := False\<rparr>"

text \<open>Two instances: one with a memory store, one without a token store.\<close>

definition with_memory :: "sample_store auth" where
  "with_memory =
     \<lparr>auth.baseUrl = JUndefined, auth.clientId = JStr ''cli'', auth.clientSecret = JUndefined,
      auth.env = JUndefined, auth.messages = JUndefined, auth.password = JUndefined,
      auth.realm = JStr ''test'', auth.secretFile = JUndefined, auth.serviceAccount = JUndefined,
      auth.username = JUndefined, auth.tokenStore = Some Memory\<rparr>"

definition without_store :: "sample_store auth" where
  "without_store = with_memory\<lparr>auth.tokenStore := None\<rparr>"

text \<open>Options for a construction, for a call on an instance, and a platform with a vault.\<close>

definition store_options ::
  "jsval \<Rightarrow> (string \<times> jsval) list \<Rightarrow> (sample_store, sample_authenticator) opts" where
  "store_options type properties = no_opts\<lparr>opts.tokenStoreType := type, opts.others := properties\<rparr>"

definition call_options :: "(sample_store, sample_authenticator) opts" where
  "call_options = no_opts"

definition with_vault :: "(sample_world, sample_store, sample_authenticator) modules" where
  "with_vault =
     sample\<lparr>SecureStore :=
       (\<lambda>opts. case sample_FileStore opts of Inl e \<Rightarrow> Inl e | Inr s \<Rightarrow> Inr Secure)\<rparr>"

section \<open>Properties\<close>

subsection \<open>Auxiliary facts\<close>

lemma present_iff:
  "(is_string v \<and> truthy v \<and> P) = (non_empty_string v \<and> P)"
  "(is_string v \<and> truthy v) = non_empty_string v"
  by (cases v; auto)+

lemma destructure_not_null: "a \<noteq> JNull \<Longrightarrow> \<exists>accounts all base_url. destructure a = Inr (accounts, all, base_url)"
  by (cases a) simp_all



text \<open>The definitions of the sample, for evaluation.\<close>

lemmas sample_defs =
  sample_def sample_TokenStore_def sample_SecureStore_def sample_FileStore_def
  sample_MemoryStore_def sample_get_def sample_list_def sample_clear_def sample_delete_def
  sample_OwnerPassword_def sample_hash_def sample_login_def sample_environments_def
  sample_getEndpoints_def sample_fetch_def sample_getServerInfo_def matches_baseUrl_def
  named_def property_def own_property_def parseInt_def environments_at_def inherited_keys_def
  alice_def service_def start_def reachable_def unreachable_def with_memory_def
  without_store_def store_options_def call_options_def with_vault_def no_opts_def

subsection \<open>Logout failures during revoke\<close>

text \<open>
  Claim C1 holds of the branch for a response that is not \<open>ok\<close> and fails where the request
  itself fails. On the sample, with the provider unreachable, \<open>revoke({ accounts: 'alice' })\<close>
  has the store remove the entry, after which \<open>await fetch(url)\<close> throws: \<open>revoke\<close>
  rejects with the error of the request, returns no entries and logs nothing. With the
  provider reachable and answering the second logout with 400, \<open>revoke({ all: true })\<close>
  logs the failure and returns both entries, as the claim says of every failure.
\<close>

theorem revoke_fetch_rejection:
  "fst (revoke sample with_memory (JObj [(''accounts'', JStr ''alice'')]) (start unreachable))
     = Inl (Failure ''ECONNREFUSED'') \<and>
   contents (world (snd (revoke sample with_memory (JObj [(''accounts'', JStr ''alice'')]) (start unreachable))))
     = [service] \<and>
   filter is_log (trace (snd (revoke sample with_memory (JObj [(''accounts'', JStr ''alice'')]) (start unreachable))))
     = [] \<and>
   fst (revoke sample with_memory (JObj [(''all'', JBool True)]) (start reachable))
     = Inr (Entries [alice, service]) \<and>
   filter is_log (trace (snd (revoke sample with_memory (JObj [(''all'', JBool True)]) (start reachable))))
     = [Log (logout_line alice \<lparr>ok = True, status = 200\<rparr>),
        Log (logout_line service \<lparr>ok = False, status = 400\<rparr>)]"
  by (simp add: revoke_def perform_def log_def logout_url_def sample_defs)

subsection \<open>Validation of the arguments of revoke\<close>




subsection \<open>Selection of the token store\<close>

text \<open>
  Claim C3, as amended. With no \<open>tokenStore\<close> option supplied and \<open>tokenStoreType\<close>
  \<open>'auto'\<close> (or absent), the constructor attempts the Secure store first and takes it when it
  can be constructed; on its failure it attempts the File store and takes it when it can be
  constructed; when the File store fails with \<open>MISSING_REQUIRED_PARAMETER\<close> the outcome is
  that of the Memory store's constructor; a File store failure of any other kind propagates to
  the caller. For the explicit type \<open>'secure'\<close> or \<open>'file'\<close>, the error of the store's
  constructor propagates instead of falling back.
\<close>

theorem auto_store_fallback:
  assumes "\<not> truthy_ref (opts.tokenStore opts)"
  shows "(opts.tokenStoreType opts = JStr ''auto'' \<or> opts.tokenStoreType opts = JUndefined \<longrightarrow>
           (\<forall>s. SecureStore M opts = Inr s \<longrightarrow>
                constructed_store (constructor M (Object opts)) = Inr (Some s)) \<and>
           (\<forall>e1 s. SecureStore M opts = Inl e1 \<and> FileStore M opts = Inr s \<longrightarrow>
                constructed_store (constructor M (Object opts)) = Inr (Some s)) \<and>
           (\<forall>e1 e2. SecureStore M opts = Inl e1 \<and> FileStore M opts = Inl e2
                      \<and> is_missing_required_parameter e2 \<longrightarrow>
                constructed_store (constructor M (Object opts)) =
                  (case MemoryStore M opts of Inl e3 \<Rightarrow> Inl e3 | Inr s \<Rightarrow> Inr (Some s))) \<and>
           (\<forall>e1 e2. SecureStore M opts = Inl e1 \<and> FileStore M opts = Inl e2
                      \<and> \<not> is_missing_required_parameter e2 \<longrightarrow>
                constructor M (Object opts) = Inl e2)) \<and>
         (\<forall>e. opts.tokenStoreType opts = JStr ''secure'' \<and> SecureStore M opts = Inl e \<longrightarrow>
                constructor M (Object opts) = Inl e) \<and>
         (\<forall>e. opts.tokenStoreType opts = JStr ''file'' \<and> FileStore M opts = Inl e \<longrightarrow>
                constructor M (Object opts) = Inl e)"
  using assms
  by (auto simp: constructor_def expect_object_def createTokenStore_def constructed_store_def Let_def
           split: sum.splits)

text \<open>
  On the sample (no vault): the fallback to Memory, the File store with a directory, the Secure
  store where there is a vault, and the three errors that propagate.
\<close>

theorem auto_store_fallback_witness:
  "constructed_store (constructor sample (Object (store_options JUndefined []))) = Inr (Some Memory) \<and>
   constructed_store (constructor sample (Object (store_options (JStr ''auto'') []))) = Inr (Some Memory) \<and>
   constructed_store (constructor sample
       (Object (store_options (JStr ''auto'') [(''tokenStoreDir'', JStr ''/home/user/.axway'')]))) =
     Inr (Some (File ''/home/user/.axway'')) \<and>
   constructed_store (constructor with_vault
       (Object (store_options (JStr ''auto'') [(''tokenStoreDir'', JStr ''/home/user/.axway'')]))) =
     Inr (Some Secure) \<and>
   constructor sample (Object (store_options (JStr ''auto'') [(''tokenRefreshThreshold'', JBool True)])) =
     Inl (INVALID_PARAMETER [Lit ''Expected token refresh threshold to be a number of seconds'']) \<and>
   constructor sample (Object (store_options (JStr ''secure'') [(''tokenStoreDir'', JStr ''/home/user/.axway'')])) =
     Inl (Failure ''Secure token store requires the keytar module'') \<and>
   constructor sample (Object (store_options (JStr ''file'') [])) =
     Inl (MISSING_REQUIRED_PARAMETER [Lit ''Token store requires a token store path''])"
  using auto_store_fallback [where M = sample and opts = "store_options JUndefined []"]
    auto_store_fallback [where M = sample and opts = "store_options (JStr ''auto'') []"]
    auto_store_fallback [where M = sample
      and opts = "store_options (JStr ''auto'') [(''tokenStoreDir'', JStr ''/home/user/.axway'')]"]
    auto_store_fallback [where M = with_vault
      and opts = "store_options (JStr ''auto'') [(''tokenStoreDir'', JStr ''/home/user/.axway'')]"]
    auto_store_fallback [where M = sample
      and opts = "store_options (JStr ''auto'') [(''tokenRefreshThreshold'', JBool True)]"]
    auto_store_fallback [where M = sample
      and opts = "store_options (JStr ''secure'') [(''tokenStoreDir'', JStr ''/home/user/.axway'')]"]
    auto_store_fallback [where M = sample and opts = "store_options (JStr ''file'') []"]
  by (simp add: sample_def with_vault_def sample_TokenStore_def sample_SecureStore_def
        sample_FileStore_def sample_MemoryStore_def property_def own_property_def parseInt_def
        Let_def store_options_def no_opts_def)

text \<open>
  Claim C3 as stated fails where the File store fails for another reason than a missing
  parameter. With \<open>tokenRefreshThreshold: 'abc'\<close> the constructor of the stores' base class
  rejects the options: the Secure store throws, the File store throws an error that is not
  \<open>MISSING_REQUIRED_PARAMETER\<close>, and the constructor throws it again, also for \<open>'auto'\<close>,
  and yields no store.
\<close>

theorem auto_store_fallback_counterexample:
  "\<not> truthy_ref (opts.tokenStore (store_options (JStr ''auto'') [(''tokenRefreshThreshold'', JStr ''abc'')])) \<and>
   opts.tokenStoreType (store_options (JStr ''auto'') [(''tokenRefreshThreshold'', JStr ''abc'')]) =
     JStr ''auto'' \<and>
   FileStore sample (store_options (JStr ''auto'') [(''tokenRefreshThreshold'', JStr ''abc'')]) =
     Inl (INVALID_PARAMETER [Lit ''Expected token refresh threshold to be a number of seconds'']) \<and>
   constructor sample (Object (store_options (JStr ''auto'') [(''tokenRefreshThreshold'', JStr ''abc'')])) =
     Inl (INVALID_PARAMETER [Lit ''Expected token refresh threshold to be a number of seconds''])"
  by (simp add: constructor_def expect_object_def createTokenStore_def sample_def
        sample_TokenStore_def sample_SecureStore_def sample_FileStore_def property_def
        own_property_def parseInt_def Let_def store_options_def no_opts_def)

subsection \<open>Selection of the authenticator\<close>

text \<open>
  Claim C4, as amended. For every options object whose \<open>authenticator\<close> option is an
  \<open>Authenticator\<close> instance or is not supplied (is falsy), \<open>createAuthenticator\<close> gives what
  the first matching rule selects, in the order: the supplied instance, returned as it is;
  an \<open>OwnerPassword\<close> authenticator if the username is a non-empty string and the password is a
  string, empty or not; a \<open>ClientSecret\<close> authenticator if the client secret is a non-empty
  string; a \<open>SignedJWT\<close> authenticator if the secret-file path is a non-empty string; a
  \<open>PKCE\<close> authenticator otherwise. For an \<open>authenticator\<close> option that is supplied and is
  not an \<open>Authenticator\<close> instance the call fails.
\<close>

theorem createAuthenticator_first_match:
  "((\<exists>given. opts.authenticator opts = Instance given) \<or> \<not> truthy_ref (opts.authenticator opts) \<longrightarrow>
      createAuthenticator M opts = selected M (first_match selection_policy ByPKCE opts) opts) \<and>
   (\<forall>given. opts.authenticator opts = Instance given \<longrightarrow> createAuthenticator M opts = Inr given) \<and>
   (\<forall>v. opts.authenticator opts = Value v \<and> truthy v \<longrightarrow> (\<exists>e. createAuthenticator M opts = Inl e))"
  by (cases "opts.authenticator opts")
     (auto simp: createAuthenticator_def selection_policy_def provided_def present_iff)

theorem createAuthenticator_first_match_witness:
  "createAuthenticator sample
     (call_options\<lparr>opts.username := JStr ''alice'', opts.password := JStr ''secret'',
        opts.clientSecret := JStr ''s3cr3t'', opts.secretFile := JStr ''/keys/jwt.pem''\<rparr>) =
     Inr (Authenticator ''OwnerPassword'' JUndefined) \<and>
   createAuthenticator sample
     (call_options\<lparr>opts.authenticator := Instance (Authenticator ''Custom'' JNull),
        opts.username := JStr ''alice'', opts.password := JStr ''secret''\<rparr>) =
     Inr (Authenticator ''Custom'' JNull) \<and>
   createAuthenticator sample
     (call_options\<lparr>opts.username := JStr ''alice'', opts.clientSecret := JStr ''s3cr3t'',
        opts.secretFile := JStr ''/keys/jwt.pem''\<rparr>) =
     Inr (Authenticator ''ClientSecret'' JUndefined) \<and>
   createAuthenticator sample
     (call_options\<lparr>opts.clientSecret := JStr [], opts.secretFile := JStr ''/keys/jwt.pem''\<rparr>) =
     Inr (Authenticator ''SignedJWT'' JUndefined) \<and>
   createAuthenticator sample call_options = Inr (Authenticator ''PKCE'' JUndefined) \<and>
   (\<exists>e. createAuthenticator sample (call_options\<lparr>opts.authenticator := Value (JObj [])\<rparr>) = Inl e)"
  using createAuthenticator_first_match [where M = sample and opts =
      "call_options\<lparr>opts.username := JStr ''alice'', opts.password := JStr ''secret'',
        opts.clientSecret := JStr ''s3cr3t'', opts.secretFile := JStr ''/keys/jwt.pem''\<rparr>"]
    createAuthenticator_first_match [where M = sample and opts =
      "call_options\<lparr>opts.authenticator := Instance (Authenticator ''Custom'' JNull),
        opts.username := JStr ''alice'', opts.password := JStr ''secret''\<rparr>"]
    createAuthenticator_first_match [where M = sample and opts =
      "call_options\<lparr>opts.username := JStr ''alice'', opts.clientSecret := JStr ''s3cr3t'',
        opts.secretFile := JStr ''/keys/jwt.pem''\<rparr>"]
    createAuthenticator_first_match [where M = sample and opts =
      "call_options\<lparr>opts.clientSecret := JStr [], opts.secretFile := JStr ''/keys/jwt.pem''\<rparr>"]
    createAuthenticator_first_match [where M = sample and opts = call_options]
    createAuthenticator_first_match [where M = sample
      and opts = "call_options\<lparr>opts.authenticator := Value (JObj [])\<rparr>"]
  by (simp add: selection_policy_def provided_def sample_def sample_OwnerPassword_def
        call_options_def no_opts_def)

text \<open>
  Claim C4 as stated fails on two inputs. With an \<open>authenticator\<close> option that is not an
  \<open>Authenticator\<close> instance (here \<open>{}\<close>) beside a username and a password, no instance is
  supplied and the stated order selects \<open>OwnerPassword\<close>, while the call throws. With a
  username, an empty password and a client secret, the password is not present and the stated
  order selects \<open>ClientSecret\<close>, while the call constructs \<open>OwnerPassword\<close>, which rejects
  the empty password.
\<close>

theorem createAuthenticator_first_match_counterexample:
  "selected sample
     (first_match stated_policy ByPKCE
        (call_options\<lparr>opts.authenticator := Value (JObj []), opts.username := JStr ''alice'',
           opts.password := JStr ''secret''\<rparr>))
     (call_options\<lparr>opts.authenticator := Value (JObj []), opts.username := JStr ''alice'',
        opts.password := JStr ''secret''\<rparr>) =
     Inr (Authenticator ''OwnerPassword'' JUndefined) \<and>
   createAuthenticator sample
     (call_options\<lparr>opts.authenticator := Value (JObj []), opts.username := JStr ''alice'',
        opts.password := JStr ''secret''\<rparr>) =
     Inl (TypeError [Lit ''E.INVALID_ARUGMENT is not a function'']) \<and>
   selected sample
     (first_match stated_policy ByPKCE
        (call_options\<lparr>opts.username := JStr ''alice'', opts.password := JStr [],
           opts.clientSecret := JStr ''s3cr3t''\<rparr>))
     (call_options\<lparr>opts.username := JStr ''alice'', opts.password := JStr [],
        opts.clientSecret := JStr ''s3cr3t''\<rparr>) =
     Inr (Authenticator ''ClientSecret'' JUndefined) \<and>
   createAuthenticator sample
     (call_options\<lparr>opts.username := JStr ''alice'', opts.password := JStr [],
        opts.clientSecret := JStr ''s3cr3t''\<rparr>) =
     Inl (INVALID_ARGUMENT [Lit ''Expected password to be a non-empty string''])"
  by (simp add: createAuthenticator_def stated_policy_def provided_def sample_def
        sample_OwnerPassword_def call_options_def no_opts_def)

subsection \<open>Application of the defaults\<close>




subsection \<open>getAccount\<close>

text \<open>
  Claim C6. On an instance without a token store \<open>getAccount\<close> returns \<open>null\<close> and reaches
  neither the store nor the network. On an instance with a store, where the defaults apply and
  the authenticator can be constructed, \<open>getAccount\<close> sets \<open>hash\<close> to the hash of that
  authenticator, which is the authenticator \<open>login\<close> uses for the same options, asks the
  store for the options with this hash, and returns what the store returns: \<open>null\<close> when the
  store finds no entry.
\<close>

theorem getAccount_lookup:
  "(auth.tokenStore this = None \<longrightarrow>
      fst (getAccount M this a st) = Inr None \<and> world (snd (getAccount M this a st)) = world st) \<and>
   (\<forall>store resolved chosen r w.
      auth.tokenStore this = Some store \<and> applyDefaults M this a = Inr resolved \<and>
      createAuthenticator M resolved = Inr chosen \<and>
      store_get M store (resolved\<lparr>opts.hash := JStr (authenticator_hash M chosen)\<rparr>) (world st) = (r, w) \<longrightarrow>
        getAccount M this a st =
          (r, \<lparr>world = w, trace = trace st @ [StoreGet (JStr (authenticator_hash M chosen))]\<rparr>) \<and>
        login M this a st = perform AuthenticatorLogin (authenticator_login M chosen resolved) st)"
  by (auto simp: getAccount_def login_def perform_def log_def Let_def)

theorem getAccount_lookup_witness:
  "getAccount sample with_memory (Object call_options) (start reachable) =
     (Inr (Some alice), \<lparr>world = reachable, trace = [StoreGet (JStr ''PKCE:cli'')]\<rparr>) \<and>
   getAccount sample with_memory (Object (call_options\<lparr>opts.clientId := JStr ''other''\<rparr>)) (start reachable) =
     (Inr None, \<lparr>world = reachable, trace = [StoreGet (JStr ''PKCE:other'')]\<rparr>) \<and>
   fst (getAccount sample without_store (Object call_options) (start reachable)) = Inr None"
  using getAccount_lookup [where M = sample and this = with_memory and a = "Object call_options"
      and st = "start reachable"]
    getAccount_lookup [where M = sample and this = with_memory
      and a = "Object (call_options\<lparr>opts.clientId := JStr ''other''\<rparr>)" and st = "start reachable"]
    getAccount_lookup [where M = sample and this = without_store and a = "Object call_options"
      and st = "start reachable"]
  by (simp add: applyDefaults_def createAuthenticator_def expect_object_def Let_def js_or_def
        environments_at_def sample_def sample_environments_def sample_hash_def sample_get_def
        with_memory_def without_store_def call_options_def no_opts_def start_def reachable_def
        alice_def service_def)

subsection \<open>list\<close>

text \<open>
  Claim C7. On an instance without a token store \<open>list\<close> returns the empty array and does
  nothing else; with a store it returns the store's listing.
\<close>

theorem list_returns_store_listing:
  "(auth.tokenStore this = None \<longrightarrow> list M this st = (Inr [], st)) \<and>
   (\<forall>store r w. auth.tokenStore this = Some store \<and> store_list M store (world st) = (r, w) \<longrightarrow>
        list M this st = (r, \<lparr>world = w, trace = trace st @ [StoreList]\<rparr>))"
  by (simp add: list_def perform_def)

theorem list_returns_store_listing_witness:
  "auth.tokenStore without_store = None \<and>
   list sample without_store (start reachable) = (Inr [], start reachable) \<and>
   auth.tokenStore with_memory = Some Memory \<and>
   store_list sample Memory (world (start reachable)) = (Inr [alice, service], reachable) \<and>
   list sample with_memory (start reachable) =
     (Inr [alice, service], \<lparr>world = reachable, trace = [StoreList]\<rparr>)"
  using list_returns_store_listing [where this = without_store and M = sample and st = "start reachable"]
    list_returns_store_listing [where this = with_memory and M = sample and st = "start reachable"]
  by (simp add: without_store_def with_memory_def sample_def sample_list_def start_def reachable_def)

subsection \<open>serverInfo\<close>



subsection \<open>revoke without a token store\<close>

text \<open>
  Claim C9, as amended. On an instance without a token store, a \<open>revoke\<close> call whose argument
  is not \<open>null\<close> returns the empty array whatever the argument holds: no \<open>INVALID_ARGUMENT\<close>
  is raised, the world is left as it was, and the one event of the call is the line it logs.
\<close>

theorem revoke_without_store:
  assumes "auth.tokenStore this = None" and "a \<noteq> JNull"
  shows "fst (revoke M this a st) = Inr (Entries []) \<and>
         world (snd (revoke M this a st)) = world st \<and>
         trace (snd (revoke M this a st)) =
           trace st @ [Log [Lit ''No token store, returning empty array'']]"
proof -
  from destructure_not_null [OF assms(2)] obtain accounts all base_url
    where "destructure a = Inr (accounts, all, base_url)" by blast
  then show ?thesis using assms(1) by (simp add: revoke_def log_def)
qed

theorem revoke_without_store_witness:
  "auth.tokenStore without_store = None \<and> JObj [(''accounts'', JNum 7)] \<noteq> JNull \<and>
   destructure (JObj [(''accounts'', JNum 7)]) = Inr (JNum 7, JUndefined, JUndefined) \<and>
   \<not> truthy JUndefined \<and> \<not> is_string (JNum 7) \<and> \<not> isArray (JNum 7) \<and>
   fst (revoke sample without_store (JObj [(''accounts'', JNum 7)]) (start reachable)) = Inr (Entries []) \<and>
   world (snd (revoke sample without_store (JObj [(''accounts'', JNum 7)]) (start reachable))) = reachable \<and>
   trace (snd (revoke sample without_store (JObj [(''accounts'', JNum 7)]) (start reachable))) =
     [Log [Lit ''No token store, returning empty array'']]"
  using revoke_without_store [where this = without_store and M = sample
      and a = "JObj [(''accounts'', JNum 7)]" and st = "start reachable"]
  by (simp add: without_store_def start_def own_property_def)

text \<open>
  Claim C9 as stated fails for \<open>revoke(null)\<close>: the default \<open>{}\<close> of the parameter stands in
  for \<open>undefined\<close> only, so \<open>null\<close> is destructured and the call fails with a \<open>TypeError\<close>
  before the guard on the token store is reached.
\<close>

theorem revoke_without_store_counterexample:
  "auth.tokenStore without_store = None \<and>
   revoke sample without_store JNull (start reachable) =
     (Inl (TypeError [Lit ''Cannot destructure property accounts of null'']), start reachable)"
  by (simp add: revoke_def without_store_def)

subsection \<open>Construction without a token store\<close>



end
